theory Spec2Isabelle
  imports Complex_Main "HOL-Library.Sublist" "HOL-Library.Multiset"
begin

section \<open>Text\<close>

text \<open>
  A Python \<open>str\<close> is a sequence of Unicode code points. The chatbot compares characters
  with code points above the ASCII range (the Arabic block), so a character is modelled
  by its code point and a string by the list of its code points. \<open>ustr\<close> turns an ASCII
  literal into such a list.
\<close>

type_synonym ustring = "nat list"

definition ustr :: "string \<Rightarrow> ustring" where
  "ustr s = map of_char s"

text \<open>
  \<open>a <= b\<close> on Python strings: lexicographic order on the code points, a proper prefix
  being smaller.
\<close>

fun py_str_le :: "ustring \<Rightarrow> ustring \<Rightarrow> bool" where
  "py_str_le [] ys = True"
| "py_str_le (x # xs) [] = False"
| "py_str_le (x # xs) (y # ys) = (x < y \<or> (x = y \<and> py_str_le xs ys))"

text \<open>
  \<open>str.lower()\<close> on one character. Python applies the full Unicode lower-case mapping.
  Three groups of code points have an image that contains an ASCII character: the
  letters \<open>A\<close> to \<open>Z\<close>, U+0130 (capital I with dot above, whose image is the two code
  points \<open>i\<close>, U+0307) and U+212A (the Kelvin sign, whose image is \<open>k\<close>). Every other
  cased letter (also the capital sigma, whose image depends on its position) is mapped
  to code points outside the ASCII range and outside the Arabic block, and no code
  point of the Arabic block is changed. The chatbot only asks of a
  lowered string whether it lies between \<open>a\<close> and \<open>z\<close> and whether it contains one of
  its keywords, which consist of ASCII and Arabic characters; for both questions a
  non-ASCII image is as good as the code point it came from, so the model keeps every
  code point outside the three groups in place.
\<close>

definition py_lower_char :: "nat \<Rightarrow> ustring" where
  "py_lower_char c =
     (if 0x41 \<le> c \<and> c \<le> 0x5A then [c + 0x20]
      else if c = 0x130 then [0x69, 0x307]
      else if c = 0x212A then [0x6B]
      else [c])"

definition py_lower :: "ustring \<Rightarrow> ustring" where
  "py_lower s = concat (map py_lower_char s)"

text \<open>\<open>needle in haystack\<close> on Python strings: the needle occurs as a contiguous run.\<close>

fun str_contains :: "ustring \<Rightarrow> ustring \<Rightarrow> bool" where
  "str_contains needle [] = (needle = [])"
| "str_contains needle (c # cs) = (prefix needle (c # cs) \<or> str_contains needle cs)"

section \<open>Language detection\<close>

datatype language = Arabic | English

text \<open>
  \<open>detect_language\<close> (chatbot.py, lines 122 to 138): two counts over the characters of
  the text, the comparisons being comparisons of one-character strings.
\<close>

definition arabic_count :: "ustring \<Rightarrow> nat" where
  "arabic_count text =
     length (filter (\<lambda>char. py_str_le [0x600] [char] \<and> py_str_le [char] [0x6FF]) text)"

definition english_count :: "ustring \<Rightarrow> nat" where
  "english_count text =
     length (filter (\<lambda>char. py_str_le (ustr ''a'') (py_lower_char char)
                           \<and> py_str_le (py_lower_char char) (ustr ''z'')) text)"

definition detect_language :: "ustring \<Rightarrow> language" where
  "detect_language text =
     (if arabic_count text > english_count text then Arabic else English)"

text \<open>The two character classes in the words of the specification.\<close>

definition in_arabic_block :: "nat \<Rightarrow> bool" where
  "in_arabic_block c = (0x600 \<le> c \<and> c \<le> 0x6FF)"

definition is_ascii_letter :: "nat \<Rightarrow> bool" where
  "is_ascii_letter c = ((0x41 \<le> c \<and> c \<le> 0x5A) \<or> (0x61 \<le> c \<and> c \<le> 0x7A))"

definition count_arabic_block :: "ustring \<Rightarrow> nat" where
  "count_arabic_block text = length (filter in_arabic_block text)"

definition count_ascii_letters :: "ustring \<Rightarrow> nat" where
  "count_ascii_letters text = length (filter is_ascii_letter text)"

definition lowers_to_ascii_letter :: "nat \<Rightarrow> bool" where
  "lowers_to_ascii_letter c = (is_ascii_letter c \<or> c = 0x130 \<or> c = 0x212A)"

definition count_lowered_letters :: "ustring \<Rightarrow> nat" where
  "count_lowered_letters text = length (filter lowers_to_ascii_letter text)"

section \<open>Session data\<close>

datatype UserRole = CUSTOMER | STAFF

text \<open>
  A product is a dictionary read from JSON with the nine keys below. \<open>price\<close> is a JSON
  number; the model computes with it exactly (the rounding of binary floating point is
  outside the model). \<open>units_sold\<close> is a Python integer.
\<close>

record product =
  product_id :: int
  name :: ustring
  name_ar :: ustring
  price :: rat
  currency :: ustring
  category :: ustring
  units_sold :: int
  description :: ustring
  description_ar :: ustring

text \<open>A transcript entry is a dictionary with the keys \<open>role\<close> and \<open>content\<close>.\<close>

datatype speaker = System | User | Assistant

type_synonym chat_message = "speaker \<times> ustring"

record policy =
  staff_only :: bool
  policy_keywords :: "ustring list"

text \<open>
  The fields of \<open>ProductChatbot\<close> that \<open>process_message\<close> reads or writes. The
  attribute policies are a dictionary, iterated in insertion order: an association list.
  The client and the model name only reach the gateway, which is modelled below.
\<close>

record chatbot =
  products :: "product list"
  user_role :: UserRole
  conversation_history :: "chat_message list"
  attribute_policies :: "(ustring \<times> policy) list"
  system_prompt :: ustring

text \<open>\<open>_build_attribute_policies\<close> (lines 140 to 160).\<close>

definition build_attribute_policies :: "(ustring \<times> policy) list" where
  "build_attribute_policies =
     [(ustr ''name'', \<lparr>staff_only = False,
         policy_keywords = [ustr ''name'', ustr ''called'', ustr ''product'']\<rparr>),
      (ustr ''description'', \<lparr>staff_only = False,
         policy_keywords = [ustr ''description'', ustr ''details'', ustr ''about'']\<rparr>),
      (ustr ''category'', \<lparr>staff_only = False,
         policy_keywords = [ustr ''category'', ustr ''type'', ustr ''segment'', ustr ''kind'']\<rparr>),
      (ustr ''price'', \<lparr>staff_only = False,
         policy_keywords = [ustr ''price'', ustr ''cost'', ustr ''how much'', ustr ''usd'',
                            ustr ''dollar'']\<rparr>),
      (ustr ''units_sold'', \<lparr>staff_only = True,
         policy_keywords = [ustr ''units sold'', ustr ''sold units'', ustr ''units'', ustr ''sold'',
                            ustr ''sales volume'', ustr ''best seller'', ustr ''top seller'',
                            ustr ''most sold'', ustr ''most selling'',
                            [0x648, 0x62D, 0x62F, 0x627, 0x62A, 0x20, 0x645, 0x628, 0x627, 0x639,
                             0x629],
                            [0x627, 0x644, 0x648, 0x62D, 0x62F, 0x627, 0x62A, 0x20, 0x627, 0x644,
                             0x645, 0x628, 0x627, 0x639, 0x629],
                            [0x645, 0x628, 0x627, 0x639, 0x629],
                            [0x627, 0x644, 0x623, 0x643, 0x62B, 0x631, 0x20, 0x645, 0x628, 0x64A,
                             0x639, 0x627, 0x64B],
                            [0x623, 0x641, 0x636, 0x644, 0x20, 0x645, 0x628, 0x64A, 0x639, 0x627,
                             0x64B]]\<rparr>),
      (ustr ''revenue'', \<lparr>staff_only = True,
         policy_keywords = [ustr ''revenue'', ustr ''total sales'', ustr ''sales revenue'',
                            ustr ''earnings'',
                            [0x625, 0x64A, 0x631, 0x627, 0x62F, 0x627, 0x62A],
                            [0x627, 0x644, 0x625, 0x64A, 0x631, 0x627, 0x62F, 0x627, 0x62A],
                            [0x627, 0x644, 0x645, 0x628, 0x64A, 0x639, 0x627, 0x62A]]\<rparr>)]"

text \<open>\<open>reset_conversation\<close> (lines 400 to 402).\<close>

definition reset_conversation :: "chatbot \<Rightarrow> chatbot" where
  "reset_conversation self = self\<lparr>conversation_history := []\<rparr>"

section \<open>The two gates for customers\<close>

text \<open>The keyword list of \<open>_check_staff_only_request\<close> (lines 185 to 188).\<close>

definition staff_keywords :: "ustring list" where
  "staff_keywords =
     [ustr ''report'', ustr ''analytics'', ustr ''revenue'', ustr ''sales'',
      ustr ''dashboard'', ustr ''performance'',
      [0x62A, 0x642, 0x631, 0x64A, 0x631],
      [0x62A, 0x642, 0x627, 0x631, 0x64A, 0x631],
      [0x62A, 0x62D, 0x644, 0x64A, 0x644, 0x627, 0x62A],
      [0x625, 0x64A, 0x631, 0x627, 0x62F, 0x627, 0x62A],
      [0x627, 0x644, 0x625, 0x64A, 0x631, 0x627, 0x62F, 0x627, 0x62A],
      [0x645, 0x628, 0x64A, 0x639, 0x627, 0x62A],
      [0x627, 0x644, 0x645, 0x628, 0x64A, 0x639, 0x627, 0x62A]]"

text \<open>The two answers of the staff-topic gate (lines 196 and 198).\<close>

definition staff_only_reply_ar :: ustring where
  "staff_only_reply_ar =
     [0x62A, 0x642, 0x627, 0x631, 0x64A, 0x631, 0x20, 0x627, 0x644, 0x645, 0x628, 0x64A,
      0x639, 0x627, 0x62A, 0x20, 0x648, 0x627, 0x644, 0x62A, 0x62D, 0x644, 0x64A, 0x644,
      0x627, 0x62A, 0x20, 0x645, 0x62A, 0x627, 0x62D, 0x629, 0x20, 0x641, 0x642, 0x637,
      0x20, 0x644, 0x645, 0x648, 0x638, 0x641, 0x64A, 0x20, 0x627, 0x644, 0x634, 0x631,
      0x643, 0x629, 0x2E, 0x20, 0x64A, 0x645, 0x643, 0x646, 0x646, 0x64A, 0x20, 0x645,
      0x633, 0x627, 0x639, 0x62F, 0x62A, 0x643, 0x20, 0x628, 0x645, 0x639, 0x644, 0x648,
      0x645, 0x627, 0x62A, 0x20, 0x639, 0x646, 0x20, 0x627, 0x644, 0x645, 0x646, 0x62A,
      0x62C, 0x627, 0x62A, 0x20, 0x628, 0x62F, 0x644, 0x627, 0x64B, 0x20, 0x645, 0x646,
      0x20, 0x630, 0x644, 0x643, 0x2E]"

definition staff_only_reply_en :: ustring where
  "staff_only_reply_en =
     ustr ''Sales reports and analytics are only available to staff members. ''
     @ ustr ''I can help you with product information instead.''"

text \<open>\<open>_check_staff_only_request\<close> (lines 175 to 200).\<close>

definition check_staff_only_request :: "chatbot \<Rightarrow> ustring \<Rightarrow> ustring option" where
  "check_staff_only_request self user_message =
     (let lower_message = py_lower user_message;
          is_staff_request = list_ex (\<lambda>keyword. str_contains keyword lower_message) staff_keywords
      in if is_staff_request \<and> user_role self = CUSTOMER
         then (let lang = detect_language user_message
               in if lang = Arabic then Some staff_only_reply_ar
                  else Some staff_only_reply_en)
         else None)"

text \<open>The two answers of the attribute gate (lines 214 and 215).\<close>

definition attribute_reply_ar :: ustring where
  "attribute_reply_ar =
     [0x647, 0x630, 0x647, 0x20, 0x627, 0x644, 0x645, 0x639, 0x644, 0x648, 0x645, 0x629,
      0x20, 0x645, 0x62A, 0x627, 0x62D, 0x629, 0x20, 0x641, 0x642, 0x637, 0x20, 0x644,
      0x645, 0x648, 0x638, 0x641, 0x64A, 0x20, 0x627, 0x644, 0x634, 0x631, 0x643, 0x629,
      0x2E]"

definition attribute_reply_en :: ustring where
  "attribute_reply_en = ustr ''This information is available to staff only.''"

text \<open>
  The loop of \<open>_check_attribute_access\<close> over the policy entries (lines 208 to 216): an
  entry that is not staff-only is skipped, the first staff-only entry with a keyword in
  the lowered message answers.
\<close>

fun attribute_access_loop :: "(ustring \<times> policy) list \<Rightarrow> ustring \<Rightarrow> ustring \<Rightarrow> ustring option" where
  "attribute_access_loop [] lower_message user_message = None"
| "attribute_access_loop ((attr, pol) # rest) lower_message user_message =
     (if \<not> staff_only pol then attribute_access_loop rest lower_message user_message
      else if list_ex (\<lambda>keyword. str_contains keyword lower_message) (policy_keywords pol)
      then (let lang = detect_language user_message
            in if lang = Arabic then Some attribute_reply_ar
               else Some attribute_reply_en)
      else attribute_access_loop rest lower_message user_message)"

text \<open>\<open>_check_attribute_access\<close> (lines 202 to 216).\<close>

definition check_attribute_access :: "chatbot \<Rightarrow> ustring \<Rightarrow> ustring option" where
  "check_attribute_access self user_message =
     (if user_role self = STAFF then None
      else attribute_access_loop (attribute_policies self) (py_lower user_message) user_message)"

section \<open>Python built-ins used by the analytics\<close>

datatype py_exception = ValueError | ServiceError nat

text \<open>\<open>sum\<close> starts from 0 and adds the items from left to right.\<close>

definition py_sum :: "'a::monoid_add list \<Rightarrow> 'a" where
  "py_sum xs = foldl (+) 0 xs"

text \<open>
  \<open>max(xs, key=...)\<close> raises \<open>ValueError\<close> on an empty sequence; otherwise it walks the
  items and replaces the candidate only by an item with a strictly greater key.
\<close>

fun max_from :: "('a \<Rightarrow> int) \<Rightarrow> 'a \<Rightarrow> 'a list \<Rightarrow> 'a" where
  "max_from key best [] = best"
| "max_from key best (x # xs) = max_from key (if key x > key best then x else best) xs"

fun py_max :: "('a \<Rightarrow> int) \<Rightarrow> 'a list \<Rightarrow> py_exception + 'a" where
  "py_max key [] = Inl ValueError"
| "py_max key (x # xs) = Inr (max_from key x xs)"

text \<open>
  \<open>sorted(xs, key=..., reverse=True)\<close>: the list is reversed, sorted by a stable
  ascending sort, and reversed again.
\<close>

definition py_sorted_reverse :: "('a \<Rightarrow> int) \<Rightarrow> 'a list \<Rightarrow> 'a list" where
  "py_sorted_reverse key xs = rev (sort_key key (rev xs))"

text \<open>
  The rendering of numbers inside the f-strings: \<open>format_money\<close> stands for the format
  \<open>:,.2f\<close>, \<open>format_int\<close> for the plain rendering of an integer. The results below hold
  for every rendering.
\<close>

record formatter =
  format_money :: "rat \<Rightarrow> ustring"
  format_int :: "int \<Rightarrow> ustring"

definition nl :: ustring where
  "nl = [0x0A]"

section \<open>Sales report\<close>

text \<open>
  The two sums at lines 225, 226 and again at lines 258, 259. The model adds and
  multiplies exactly. Python does so for integers; for a price that is a float it
  rounds every product and every partial sum, and it raises \<open>OverflowError\<close> when the
  units sold are too large for a float. Both effects are outside the model.
\<close>

definition total_revenue :: "product list \<Rightarrow> rat" where
  "total_revenue ps = py_sum (map (\<lambda>p. price p * of_int (units_sold p)) ps)"

definition total_units :: "product list \<Rightarrow> int" where
  "total_units ps = py_sum (map units_sold ps)"

text \<open>The line appended for one product (lines 247 and 248).\<close>

definition report_line :: "formatter \<Rightarrow> product \<Rightarrow> ustring" where
  "report_line fmt p =
     (let revenue = price p * of_int (units_sold p)
      in nl @ ustr ''- '' @ name p @ ustr '': '' @ format_int fmt (units_sold p)
         @ ustr '' units ($'' @ format_money fmt revenue @ ustr '')'')"

text \<open>The text up to the list of products (lines 229 to 244).\<close>

definition report_head :: "formatter \<Rightarrow> ustring \<Rightarrow> product list \<Rightarrow> product \<Rightarrow> ustring" where
  "report_head fmt now ps best_seller =
     nl @ ustr ''=== SALES REPORT ==='' @ nl
     @ ustr ''Generated: '' @ now @ nl
     @ nl
     @ ustr ''Summary:'' @ nl
     @ ustr ''- Total Products: '' @ format_int fmt (int (length ps)) @ nl
     @ ustr ''- Total Units Sold: '' @ format_int fmt (total_units ps) @ nl
     @ ustr ''- Total Revenue: $'' @ format_money fmt (total_revenue ps) @ nl
     @ nl
     @ ustr ''Top Performer:'' @ nl
     @ ustr ''- Product: '' @ name best_seller @ nl
     @ ustr ''- Units Sold: '' @ format_int fmt (units_sold best_seller) @ nl
     @ ustr ''- Revenue: $''
     @ format_money fmt (price best_seller * of_int (units_sold best_seller)) @ nl
     @ nl
     @ ustr ''Products by Sales:'' @ nl"

text \<open>
  \<open>_generate_sales_report\<close> (lines 218 to 250). \<open>now\<close> is the text of the current time.
  The call of \<open>max\<close> at line 227 is not guarded, so its exception leaves the function.
\<close>

definition generate_sales_report :: "formatter \<Rightarrow> ustring \<Rightarrow> chatbot \<Rightarrow> py_exception + ustring" where
  "generate_sales_report fmt now self =
     (case py_max units_sold (products self) of
        Inl e \<Rightarrow> Inl e
      | Inr best_seller \<Rightarrow>
          (let report = report_head fmt now (products self) best_seller;
               sorted_products = py_sorted_reverse units_sold (products self)
           in Inr (foldl (\<lambda>report product. report @ report_line fmt product)
                     report sorted_products)))"

section \<open>Deterministic staff analytics\<close>

text \<open>The six local formatting functions (lines 262 to 284).\<close>

definition fmt_en_revenue :: "formatter \<Rightarrow> rat \<Rightarrow> ustring" where
  "fmt_en_revenue fmt revenue =
     ustr ''Total revenue: $'' @ format_money fmt revenue @ ustr '' USD.''"

definition fmt_ar_revenue :: "formatter \<Rightarrow> rat \<Rightarrow> ustring" where
  "fmt_ar_revenue fmt revenue =
     [0x625, 0x62C, 0x645, 0x627, 0x644, 0x64A, 0x20, 0x627, 0x644, 0x625, 0x64A, 0x631,
      0x627, 0x62F, 0x627, 0x62A, 0x3A, 0x20, 0x24]
     @ format_money fmt revenue
     @ [0x20, 0x62F, 0x648, 0x644, 0x627, 0x631, 0x20, 0x623, 0x645, 0x631, 0x64A, 0x643,
        0x64A, 0x2E]"

definition fmt_en_units :: "formatter \<Rightarrow> int \<Rightarrow> ustring" where
  "fmt_en_units fmt units = ustr ''Total units sold: '' @ format_int fmt units @ ustr ''.''"

definition fmt_ar_units :: "formatter \<Rightarrow> int \<Rightarrow> ustring" where
  "fmt_ar_units fmt units =
     [0x625, 0x62C, 0x645, 0x627, 0x644, 0x64A, 0x20, 0x627, 0x644, 0x648, 0x62D, 0x62F,
      0x627, 0x62A, 0x20, 0x627, 0x644, 0x645, 0x628, 0x627, 0x639, 0x629, 0x3A, 0x20]
     @ format_int fmt units @ ustr ''.''"

definition no_products_en :: ustring where
  "no_products_en = ustr ''No products available.''"

definition no_products_ar :: ustring where
  "no_products_ar =
     [0x644, 0x627, 0x20, 0x62A, 0x648, 0x62C, 0x62F, 0x20, 0x645, 0x646, 0x62A, 0x62C,
      0x627, 0x62A, 0x20, 0x645, 0x62A, 0x627, 0x62D, 0x629, 0x2E]"

definition fmt_en_best :: "formatter \<Rightarrow> product option \<Rightarrow> ustring" where
  "fmt_en_best fmt best_seller =
     (case best_seller of
        Some b \<Rightarrow>
          ustr ''Best seller: '' @ name b @ [0x20, 0x2014, 0x20]
          @ format_int fmt (units_sold b) @ ustr '' units ($''
          @ format_money fmt (price b * of_int (units_sold b)) @ ustr '').''
      | None \<Rightarrow> no_products_en)"

definition fmt_ar_best :: "formatter \<Rightarrow> product option \<Rightarrow> ustring" where
  "fmt_ar_best fmt best_seller =
     (case best_seller of
        Some b \<Rightarrow>
          [0x623, 0x641, 0x636, 0x644, 0x20, 0x645, 0x646, 0x62A, 0x62C, 0x20, 0x645,
           0x628, 0x64A, 0x639, 0x627, 0x64B, 0x3A, 0x20]
          @ name_ar b @ [0x20, 0x2014, 0x20]
          @ format_int fmt (units_sold b)
          @ [0x20, 0x648, 0x62D, 0x62F, 0x629, 0x20, 0x28, 0x24]
          @ format_money fmt (price b * of_int (units_sold b)) @ ustr '').''
      | None \<Rightarrow> no_products_ar)"

text \<open>The three keyword families (lines 287, 292 and 297 to 300).\<close>

definition revenue_keywords :: "ustring list" where
  "revenue_keywords =
     [ustr ''revenue'', ustr ''total revenue'',
      [0x625, 0x64A, 0x631, 0x627, 0x62F, 0x627, 0x62A],
      [0x627, 0x644, 0x625, 0x64A, 0x631, 0x627, 0x62F, 0x627, 0x62A],
      [0x625, 0x62C, 0x645, 0x627, 0x644, 0x64A, 0x20, 0x627, 0x644, 0x625, 0x64A, 0x631,
       0x627, 0x62F, 0x627, 0x62A],
      [0x627, 0x644, 0x645, 0x628, 0x64A, 0x639, 0x627, 0x62A],
      [0x625, 0x62C, 0x645, 0x627, 0x644, 0x64A, 0x20, 0x627, 0x644, 0x645, 0x628, 0x64A,
       0x639, 0x627, 0x62A],
      [0x62A, 0x642, 0x631, 0x64A, 0x631, 0x20, 0x627, 0x644, 0x645, 0x628, 0x64A, 0x639,
       0x627, 0x62A]]"

definition units_keywords :: "ustring list list" where
  "units_keywords =
     [[ustr ''units'', ustr ''sold''],
      [[0x648, 0x62D, 0x62F, 0x627, 0x62A], [0x645, 0x628, 0x627, 0x639, 0x629]],
      [[0x627, 0x644, 0x648, 0x62D, 0x62F, 0x627, 0x62A],
       [0x627, 0x644, 0x645, 0x628, 0x627, 0x639, 0x629]]]"

definition best_seller_keywords :: "ustring list" where
  "best_seller_keywords =
     [ustr ''best seller'', ustr ''top seller'', ustr ''most sold'', ustr ''most selling'',
      [0x627, 0x644, 0x623, 0x643, 0x62B, 0x631, 0x20, 0x645, 0x628, 0x64A, 0x639, 0x627,
       0x64B],
      [0x623, 0x641, 0x636, 0x644, 0x20, 0x645, 0x628, 0x64A, 0x639, 0x627, 0x64B],
      [0x627, 0x644, 0x623, 0x643, 0x62B, 0x631, 0x20, 0x645, 0x628, 0x64A, 0x639, 0x627],
      [0x623, 0x643, 0x62B, 0x631, 0x20, 0x645, 0x646, 0x62A, 0x62C]]"

text \<open>
  \<open>_handle_staff_analytics\<close> (lines 252 to 304). Here \<open>max\<close> is called on a non-empty
  catalog only (line 260).
\<close>

definition handle_staff_analytics :: "formatter \<Rightarrow> chatbot \<Rightarrow> ustring \<Rightarrow> language \<Rightarrow> ustring option" where
  "handle_staff_analytics fmt self user_message lang =
     (if user_role self \<noteq> STAFF then None
      else
        (let lower_message = py_lower user_message;
             revenue = total_revenue (products self);
             units = total_units (products self);
             best_seller = (case products self of
                              [] \<Rightarrow> None
                            | x # xs \<Rightarrow> Some (max_from units_sold x xs))
         in if list_ex (\<lambda>keyword. str_contains keyword lower_message) revenue_keywords
            then Some (if lang = English then fmt_en_revenue fmt revenue
                       else fmt_ar_revenue fmt revenue)
            else if list_ex (\<lambda>pair. list_all (\<lambda>word. str_contains word lower_message) pair)
                      units_keywords
            then Some (if lang = English then fmt_en_units fmt units
                       else fmt_ar_units fmt units)
            else if list_ex (\<lambda>term. str_contains term lower_message) best_seller_keywords
            then Some (if lang = English then fmt_en_best fmt best_seller
                       else fmt_ar_best fmt best_seller)
            else None))"

section \<open>The model gateway\<close>

text \<open>
  A request is the list of messages sent to the service. The service is outside the
  program: its answer to a request, a text or an exception, may depend on the requests
  it has seen before. The list of requests sent so far stands for the state of the service.
\<close>

type_synonym request = "chat_message list"

type_synonym gateway = "request list \<Rightarrow> request \<Rightarrow> py_exception + ustring"

text \<open>\<open>_get_ai_response\<close> (lines 380 to 398).\<close>

definition get_ai_response ::
  "gateway \<Rightarrow> request list \<Rightarrow> ustring \<Rightarrow> ustring \<Rightarrow> chat_message list
     \<Rightarrow> (py_exception + ustring) \<times> request list" where
  "get_ai_response gw sent prompt user_message history =
     (let messages = [(System, prompt)] @ history @ [(User, user_message)]
      in (gw sent messages, sent @ [messages]))"

section \<open>The policy router\<close>

text \<open>\<open>if value:\<close> on an optional text: \<open>None\<close> and the empty text are both false.\<close>

fun if_truthy :: "ustring option \<Rightarrow> ustring option" where
  "if_truthy None = None"
| "if_truthy (Some r) = (if r = [] then None else Some r)"

definition apology_reply :: ustring where
  "apology_reply =
     ustr ''I apologize, but I'm experiencing technical difficulties. ''
     @ ustr ''Please try again later.''"

definition restate_instruction :: "language \<Rightarrow> ustring" where
  "restate_instruction user_language =
     (if user_language = English
      then ustr ''Respond ONLY in English. Do not include any Arabic. ''
      else [0x623, 0x639, 0x62F, 0x20, 0x627, 0x644, 0x625, 0x62C, 0x627, 0x628, 0x629,
            0x20, 0x628, 0x627, 0x644, 0x644, 0x63A, 0x629, 0x20, 0x627, 0x644, 0x639,
            0x631, 0x628, 0x64A, 0x629, 0x20, 0x641, 0x642, 0x637, 0x20, 0x648, 0x644,
            0x627, 0x20, 0x62A, 0x633, 0x62A, 0x62E, 0x62F, 0x645, 0x20, 0x627, 0x644,
            0x625, 0x646, 0x62C, 0x644, 0x64A, 0x632, 0x64A, 0x629, 0x2E])"

text \<open>
  The result of \<open>process_message\<close>: the text returned or the exception that leaves the
  function, the chatbot after the call, and the requests sent so far after the call.
\<close>

type_synonym turn = "(py_exception + ustring) \<times> chatbot \<times> request list"

text \<open>
  The last part of \<open>process_message\<close> (lines 339 to 378): the user message is appended,
  then the \<open>try\<close> block runs. Every exception raised inside it is caught at line 375 and
  answered by the apology; the history keeps what was appended before.
\<close>

definition ask_model :: "gateway \<Rightarrow> chatbot \<Rightarrow> request list \<Rightarrow> ustring \<Rightarrow> language \<Rightarrow> turn" where
  "ask_model gw self sent user_message user_language =
     (let self1 = self\<lparr>conversation_history :=
                        conversation_history self @ [(User, user_message)]\<rparr>;
          (first, sent1) = get_ai_response gw sent (system_prompt self1) user_message
                            (butlast (conversation_history self1))
      in case first of
           Inl e \<Rightarrow> (Inr apology_reply, self1, sent1)
         | Inr response \<Rightarrow>
             if detect_language response \<noteq> user_language
             then
               (let (second, sent2) =
                      get_ai_response gw sent1 (system_prompt self1)
                        (restate_instruction user_language @ nl @ ustr ''Question: ''
                         @ user_message)
                        (butlast (conversation_history self1))
                in case second of
                     Inl e \<Rightarrow> (Inr apology_reply, self1, sent2)
                   | Inr response2 \<Rightarrow>
                       (Inr response2,
                        self1\<lparr>conversation_history :=
                                 conversation_history self1 @ [(Assistant, response2)]\<rparr>,
                        sent2))
             else
               (Inr response,
                self1\<lparr>conversation_history :=
                         conversation_history self1 @ [(Assistant, response)]\<rparr>,
                sent1))"

text \<open>\<open>process_message\<close> (lines 306 to 378).\<close>

definition process_message ::
  "formatter \<Rightarrow> ustring \<Rightarrow> gateway \<Rightarrow> chatbot \<Rightarrow> request list \<Rightarrow> ustring \<Rightarrow> turn" where
  "process_message fmt now gw self sent user_message =
     (let user_language = detect_language user_message
      in case if_truthy (check_staff_only_request self user_message) of
           Some role_check \<Rightarrow> (Inr role_check, self, sent)
         | None \<Rightarrow>
            (case if_truthy (check_attribute_access self user_message) of
               Some attribute_check \<Rightarrow> (Inr attribute_check, self, sent)
             | None \<Rightarrow>
                if list_ex (\<lambda>keyword. str_contains keyword (py_lower user_message))
                     [ustr ''report'', ustr ''analytics'']
                   \<and> user_role self = STAFF
                then (generate_sales_report fmt now self, self, sent)
                else
                  (case if_truthy (handle_staff_analytics fmt self user_message user_language) of
                     Some analytics_response \<Rightarrow>
                       (Inr analytics_response,
                        self\<lparr>conversation_history :=
                                conversation_history self
                                @ [(User, user_message), (Assistant, analytics_response)]\<rparr>,
                        sent)
                   | None \<Rightarrow> ask_model gw self sent user_message user_language)))"

section \<open>Vocabulary of the results\<close>

text \<open>
  A message is delegated to the model when no earlier branch of \<open>process_message\<close>
  answers it: for a customer, no staff-topic keyword and no keyword of a staff-only
  attribute; for staff, no keyword of the report and of the three analytics families.
\<close>

definition delegated_to_model :: "chatbot \<Rightarrow> ustring \<Rightarrow> bool" where
  "delegated_to_model self user_message =
     (let lower_message = py_lower user_message
      in (user_role self = CUSTOMER
          \<and> \<not> list_ex (\<lambda>keyword. str_contains keyword lower_message) staff_keywords
          \<and> attribute_access_loop (attribute_policies self) lower_message user_message = None)
         \<or> (user_role self = STAFF
             \<and> \<not> list_ex (\<lambda>keyword. str_contains keyword lower_message)
                    [ustr ''report'', ustr ''analytics'']
             \<and> \<not> list_ex (\<lambda>keyword. str_contains keyword lower_message) revenue_keywords
             \<and> \<not> list_ex (\<lambda>pair. list_all (\<lambda>word. str_contains word lower_message) pair)
                    units_keywords
             \<and> \<not> list_ex (\<lambda>term. str_contains term lower_message) best_seller_keywords))"

text \<open>The request of the first call and the request of the corrective call.\<close>

definition first_request :: "chatbot \<Rightarrow> ustring \<Rightarrow> request" where
  "first_request self user_message =
     [(System, system_prompt self)] @ conversation_history self @ [(User, user_message)]"

definition corrective_request :: "chatbot \<Rightarrow> ustring \<Rightarrow> request" where
  "corrective_request self user_message =
     [(System, system_prompt self)] @ conversation_history self
     @ [(User, restate_instruction (detect_language user_message) @ nl
               @ ustr ''Question: '' @ user_message)]"

section \<open>Example sessions\<close>

text \<open>
  A catalog of three products with 10, 50 and 30 units sold, a customer session and a
  staff session over it, a staff session over the empty catalog, and three gateways: one
  that always fails, one that answers in Arabic first and in English afterwards, and one
  that answers in Arabic first and fails afterwards. The example rendering prints a
  placeholder for every number; no result depends on the rendering.
\<close>

definition example_formatter :: formatter where
  "example_formatter = \<lparr>format_money = (\<lambda>amount. ustr ''#.##''),
                         format_int = (\<lambda>n. ustr ''#'')\<rparr>"

definition example_now :: ustring where
  "example_now = ustr ''2025-01-01 12:00:00''"

definition example_product :: "int \<Rightarrow> string \<Rightarrow> rat \<Rightarrow> int \<Rightarrow> product" where
  "example_product i n p u =
     \<lparr>product_id = i, name = ustr n, name_ar = [0x645, 0x646, 0x62A, 0x62C],
      price = p, currency = ustr ''USD'', category = ustr ''Software'', units_sold = u,
      description = ustr ''A product'', description_ar = [0x645, 0x646, 0x62A, 0x62C]\<rparr>"

definition example_catalog :: "product list" where
  "example_catalog =
     [example_product 1 ''CRM'' 100 10,
      example_product 2 ''HR'' 20 50,
      example_product 3 ''ERP'' 5 30]"

definition customer_bot :: chatbot where
  "customer_bot =
     \<lparr>products = example_catalog, user_role = CUSTOMER, conversation_history = [],
      attribute_policies = build_attribute_policies,
      system_prompt = ustr ''You are an AI assistant''\<rparr>"

definition staff_bot :: chatbot where
  "staff_bot = customer_bot\<lparr>user_role := STAFF\<rparr>"

definition empty_staff_bot :: chatbot where
  "empty_staff_bot = staff_bot\<lparr>products := []\<rparr>"

definition failing_gateway :: gateway where
  "failing_gateway sent req = Inl (ServiceError 0)"

definition arabic_answer :: ustring where
  "arabic_answer = [0x627, 0x644, 0x633, 0x639, 0x631]"

definition wrong_then_right_gateway :: gateway where
  "wrong_then_right_gateway sent req =
     (if sent = [] then Inr arabic_answer else Inr (ustr ''The price is 100 USD.''))"

definition wrong_then_failing_gateway :: gateway where
  "wrong_then_failing_gateway sent req =
     (if sent = [] then Inr arabic_answer else Inl (ServiceError 0))"

text \<open>
  The two staff-only entries of the attribute policies, and an Arabic question that
  contains the keyword \<open>U+0648 U+062D U+062F U+0627 U+062A U+0020 U+0645 U+0628 U+0627 U+0639 U+0629\<close>
  (units sold).
\<close>

definition units_sold_entry :: "ustring \<times> policy" where
  "units_sold_entry = build_attribute_policies ! 4"

definition revenue_entry :: "ustring \<times> policy" where
  "revenue_entry = build_attribute_policies ! 5"

definition arabic_units_question :: ustring where
  "arabic_units_question =
     [0x643, 0x645, 0x20, 0x648, 0x62D, 0x62F, 0x627, 0x62A, 0x20, 0x645, 0x628, 0x627,
      0x639, 0x629, 0x61F]"

text \<open>
  An Arabic question about the price, and a gateway that answers in English first and
  in Arabic afterwards.
\<close>

definition arabic_price_question :: ustring where
  "arabic_price_question =
     [0x645, 0x627, 0x20, 0x647, 0x648, 0x20, 0x627, 0x644, 0x633, 0x639, 0x631, 0x61F]"

definition english_then_arabic_gateway :: gateway where
  "english_then_arabic_gateway sent req =
     (if sent = [] then Inr (ustr ''The price is 100 USD.'') else Inr arabic_answer)"

section \<open>Facts about text\<close>

lemma str_contains_iff:
  "str_contains needle hay \<longleftrightarrow> (\<exists>before after. hay = before @ needle @ after)"
  by (induction hay) (auto simp: prefix_def Cons_eq_append_conv)

lemma arabic_char_iff:
  "py_str_le [0x600] [c] \<and> py_str_le [c] [0x6FF] \<longleftrightarrow> in_arabic_block c"
  by (auto simp: in_arabic_block_def)

lemma arabic_count_block: "arabic_count text = count_arabic_block text"
  by (simp only: arabic_count_def count_arabic_block_def arabic_char_iff)

lemma lowered_letter_iff:
  "py_str_le (ustr ''a'') (py_lower_char c) \<and> py_str_le (py_lower_char c) (ustr ''z'')
     \<longleftrightarrow> lowers_to_ascii_letter c"
  by (auto simp: lowers_to_ascii_letter_def is_ascii_letter_def py_lower_char_def ustr_def)

lemma english_count_lowered: "english_count text = count_lowered_letters text"
  by (simp only: english_count_def count_lowered_letters_def lowered_letter_iff)

text \<open>The definitions unfolded to evaluate the text functions on a concrete message.\<close>

lemmas eval_text = ustr_def py_lower_def py_lower_char_def detect_language_def
  arabic_count_def english_count_def

section \<open>Language detection: results\<close>

text \<open>
  Claim C6, as amended. The detector answers Arabic exactly when the characters of the
  Arabic block (U+0600 to U+06FF) strictly outnumber the characters whose lower-case
  form lies between \<open>a\<close> and \<open>z\<close>; these are the ASCII letters and the two code points
  U+0130 and U+212A. It answers English otherwise, so a tie and the empty text give
  English. The function is total: there is no input on which it raises.
\<close>

theorem detect_language_counts:
  "(detect_language text = Arabic
      \<longleftrightarrow> count_lowered_letters text < count_arabic_block text)
   \<and> (detect_language text = English
      \<longleftrightarrow> count_arabic_block text \<le> count_lowered_letters text)
   \<and> detect_language [] = English"
  by (auto simp: detect_language_def arabic_count_block english_count_lowered
        count_arabic_block_def count_lowered_letters_def)

text \<open>
  The three examples of the specification: an English question, the Arabic question
  \<open>U+0645 U+0627 U+0020 U+0647 U+0648 U+0020 U+0627 U+0644 U+0633 U+0639 U+0631 U+061F\<close>,
  and the empty text.
\<close>

theorem detect_language_counts_witness:
  "detect_language (ustr ''What is the price?'') = English
   \<and> detect_language
        [0x645, 0x627, 0x20, 0x647, 0x648, 0x20, 0x627, 0x644, 0x633, 0x639, 0x631, 0x61F]
      = Arabic
   \<and> detect_language [] = English"
  using detect_language_counts [of "ustr ''What is the price?''"]
    detect_language_counts
      [of "[0x645, 0x627, 0x20, 0x647, 0x648, 0x20, 0x627, 0x644, 0x633, 0x639, 0x631, 0x61F]"]
  by (simp add: count_arabic_block_def count_lowered_letters_def in_arabic_block_def
        lowers_to_ascii_letter_def is_ascii_letter_def ustr_def)

text \<open>
  Claim C6 as stated fails on the text made of the Arabic letter U+0628 and the Kelvin
  sign U+212A: one character of the Arabic block against no ASCII letter, and yet the
  detector answers English, because the Kelvin sign lowers to \<open>k\<close>.
\<close>

theorem detect_language_ascii_counterexample:
  "count_ascii_letters [0x628, 0x212A] < count_arabic_block [0x628, 0x212A]
   \<and> detect_language [0x628, 0x212A] = English"
  by (simp add: count_ascii_letters_def count_arabic_block_def is_ascii_letter_def
        in_arabic_block_def detect_language_def arabic_count_def english_count_def
        py_lower_char_def ustr_def)

text \<open>On a text without the two code points the count is the count of ASCII letters.\<close>

lemma detect_language_ascii_letters:
  assumes "0x130 \<notin> set text" and "0x212A \<notin> set text"
  shows "detect_language text = Arabic
           \<longleftrightarrow> count_ascii_letters text < count_arabic_block text"
proof -
  have "filter lowers_to_ascii_letter text = filter is_ascii_letter text"
    using assms by (intro filter_cong) (auto simp: lowers_to_ascii_letter_def)
  then have "count_lowered_letters text = count_ascii_letters text"
    by (simp add: count_lowered_letters_def count_ascii_letters_def)
  then show ?thesis
    using detect_language_def arabic_count_block english_count_lowered by simp
qed

section \<open>Session reset: results\<close>

text \<open>
  Claim C8. Resetting a session leaves a transcript of length 0 and changes neither the
  role nor the catalog (nor the policies, nor the system prompt).
\<close>

theorem reset_conversation_clears_only_transcript:
  "length (conversation_history (reset_conversation self)) = 0
   \<and> user_role (reset_conversation self) = user_role self
   \<and> products (reset_conversation self) = products self
   \<and> length (products (reset_conversation self)) = length (products self)
   \<and> attribute_policies (reset_conversation self) = attribute_policies self
   \<and> system_prompt (reset_conversation self) = system_prompt self"
  by (simp add: reset_conversation_def)

section \<open>The two gates for customers: results\<close>

lemma staff_only_replies_nonempty:
  "staff_only_reply_ar \<noteq> []" "staff_only_reply_en \<noteq> []"
  by (simp_all add: staff_only_reply_ar_def staff_only_reply_en_def ustr_def)

lemma attribute_replies_nonempty:
  "attribute_reply_ar \<noteq> []" "attribute_reply_en \<noteq> []"
  by (simp_all add: attribute_reply_ar_def attribute_reply_en_def ustr_def)

lemma check_staff_only_request_customer:
  assumes "user_role self = CUSTOMER"
  shows "if_truthy (check_staff_only_request self user_message) =
           (if \<exists>keyword\<in>set staff_keywords. str_contains keyword (py_lower user_message)
            then Some (if detect_language user_message = Arabic then staff_only_reply_ar
                       else staff_only_reply_en)
            else None)"
  using assms
  by (simp add: check_staff_only_request_def list_ex_iff staff_only_replies_nonempty)

lemma check_staff_only_request_staff:
  "user_role self = STAFF \<Longrightarrow> check_staff_only_request self user_message = None"
  by (simp add: check_staff_only_request_def)

lemma attribute_access_loop_None:
  "attribute_access_loop entries lower_message user_message = None
     \<longleftrightarrow> \<not> (\<exists>entry\<in>set entries. staff_only (snd entry)
              \<and> (\<exists>keyword\<in>set (policy_keywords (snd entry)).
                     str_contains keyword lower_message))"
  by (induction entries lower_message user_message rule: attribute_access_loop.induct)
     (auto simp: list_ex_iff)

lemma attribute_access_loop_Some:
  "attribute_access_loop entries lower_message user_message = Some r
     \<Longrightarrow> r = (if detect_language user_message = Arabic then attribute_reply_ar
              else attribute_reply_en)"
  by (induction entries lower_message user_message rule: attribute_access_loop.induct)
     (auto split: if_splits)

lemma check_attribute_access_customer:
  assumes "user_role self = CUSTOMER"
  shows "if_truthy (check_attribute_access self user_message) =
           (if \<exists>entry\<in>set (attribute_policies self). staff_only (snd entry)
                 \<and> (\<exists>keyword\<in>set (policy_keywords (snd entry)).
                        str_contains keyword (py_lower user_message))
            then Some (if detect_language user_message = Arabic then attribute_reply_ar
                       else attribute_reply_en)
            else None)"
proof (cases "attribute_access_loop (attribute_policies self) (py_lower user_message) user_message")
  case None
  then show ?thesis
    using assms attribute_access_loop_None [of "attribute_policies self" "py_lower user_message" user_message]
    by (simp add: check_attribute_access_def)
next
  case (Some r)
  then have "\<not> attribute_access_loop (attribute_policies self) (py_lower user_message) user_message = None"
    by simp
  then have ex: "\<exists>entry\<in>set (attribute_policies self). staff_only (snd entry)
                 \<and> (\<exists>keyword\<in>set (policy_keywords (snd entry)).
                        str_contains keyword (py_lower user_message))"
    unfolding attribute_access_loop_None by simp
  show ?thesis
    using assms Some attribute_access_loop_Some [OF Some] ex
    by (simp add: check_attribute_access_def attribute_replies_nonempty)
qed

text \<open>
  Claim C1. For a customer, a message whose lowered text contains a staff-topic keyword
  is answered by the staff-only rejection, in Arabic when the message is detected as
  Arabic and in English otherwise. The chatbot is returned as it was, so the transcript
  is unchanged, and so is the list of requests sent: the gateway is not called.
\<close>

theorem customer_staff_topic_rejected:
  assumes "user_role self = CUSTOMER"
    and "keyword \<in> set staff_keywords"
    and "str_contains keyword (py_lower user_message)"
  shows "process_message fmt now gw self sent user_message =
           (Inr (if detect_language user_message = Arabic then staff_only_reply_ar
                 else staff_only_reply_en),
            self, sent)"
proof -
  have "\<exists>k\<in>set staff_keywords. str_contains k (py_lower user_message)"
    using assms(2,3) by blast
  then show ?thesis
    using check_staff_only_request_customer [OF assms(1), of user_message]
    by (simp add: process_message_def)
qed

text \<open>
  A customer asks for the sales report.
\<close>

theorem customer_staff_topic_rejected_witness:
  "user_role customer_bot = CUSTOMER
   \<and> ustr ''report'' \<in> set staff_keywords
   \<and> str_contains (ustr ''report'') (py_lower (ustr ''Show me the Sales Report''))
   \<and> process_message example_formatter example_now failing_gateway customer_bot []
        (ustr ''Show me the Sales Report'')
      = (Inr staff_only_reply_en, customer_bot, [])"
  using customer_staff_topic_rejected
    [of customer_bot "ustr ''report''" "ustr ''Show me the Sales Report''"
        example_formatter example_now failing_gateway "[]"]
  by (simp add: customer_bot_def staff_keywords_def ustr_def py_lower_def py_lower_char_def
        detect_language_def arabic_count_def english_count_def)

text \<open>
  Claim C2, as amended. For a customer, a message whose lowered text contains a keyword
  of a staff-only policy entry is rejected without a call of the gateway and without a
  change of the transcript. The topic gate is evaluated first: when the message also
  contains a staff-topic keyword the answer is the staff-only topic rejection, and it
  is the attribute rejection otherwise, each in the detected language of the message.
\<close>

theorem customer_attribute_rejected:
  assumes "user_role self = CUSTOMER"
    and "entry \<in> set (attribute_policies self)"
    and "staff_only (snd entry)"
    and "keyword \<in> set (policy_keywords (snd entry))"
    and "str_contains keyword (py_lower user_message)"
  shows "process_message fmt now gw self sent user_message =
           (Inr (if \<exists>topic\<in>set staff_keywords. str_contains topic (py_lower user_message)
                 then (if detect_language user_message = Arabic then staff_only_reply_ar
                       else staff_only_reply_en)
                 else (if detect_language user_message = Arabic then attribute_reply_ar
                       else attribute_reply_en)),
            self, sent)"
proof -
  have "\<exists>entry\<in>set (attribute_policies self). staff_only (snd entry)
          \<and> (\<exists>keyword\<in>set (policy_keywords (snd entry)).
                 str_contains keyword (py_lower user_message))"
    using assms(2-5) by blast
  then show ?thesis
    using check_staff_only_request_customer [OF assms(1), of user_message]
      check_attribute_access_customer [OF assms(1), of user_message]
    by (simp add: process_message_def)
qed

text \<open>
  A customer asks about units: no staff-topic keyword, so the attribute rejection.
\<close>

theorem customer_attribute_rejected_witness:
  "user_role customer_bot = CUSTOMER
   \<and> units_sold_entry \<in> set (attribute_policies customer_bot)
   \<and> staff_only (snd units_sold_entry)
   \<and> ustr ''units'' \<in> set (policy_keywords (snd units_sold_entry))
   \<and> str_contains (ustr ''units'') (py_lower (ustr ''How many Units did you ship?''))
   \<and> process_message example_formatter example_now failing_gateway customer_bot []
        (ustr ''How many Units did you ship?'')
      = (Inr attribute_reply_en, customer_bot, [])
   \<and> process_message example_formatter example_now failing_gateway customer_bot []
        arabic_units_question
      = (Inr attribute_reply_ar, customer_bot, [])"
  using customer_attribute_rejected
    [of customer_bot units_sold_entry "ustr ''units''" "ustr ''How many Units did you ship?''"
        example_formatter example_now failing_gateway "[]"]
    customer_attribute_rejected
    [of customer_bot units_sold_entry
        "[0x648, 0x62D, 0x62F, 0x627, 0x62A, 0x20, 0x645, 0x628, 0x627, 0x639, 0x629]"
        arabic_units_question example_formatter example_now failing_gateway "[]"]
  by (simp add: customer_bot_def units_sold_entry_def build_attribute_policies_def
        staff_keywords_def arabic_units_question_def eval_text)

text \<open>
  Claim C2 as stated fails on a customer's question about the revenue: \<open>revenue\<close> is a
  keyword of the staff-only entry \<open>revenue\<close> and also a staff-topic keyword, and the
  answer is the staff-only topic rejection, which is not the attribute rejection.
\<close>

theorem customer_attribute_rejected_counterexample:
  "user_role customer_bot = CUSTOMER
   \<and> revenue_entry \<in> set (attribute_policies customer_bot)
   \<and> staff_only (snd revenue_entry)
   \<and> ustr ''revenue'' \<in> set (policy_keywords (snd revenue_entry))
   \<and> str_contains (ustr ''revenue'') (py_lower (ustr ''What is the revenue?''))
   \<and> detect_language (ustr ''What is the revenue?'') = English
   \<and> fst (process_message example_formatter example_now failing_gateway customer_bot []
            (ustr ''What is the revenue?''))
      = Inr staff_only_reply_en
   \<and> staff_only_reply_en \<noteq> attribute_reply_en"
  by (simp add: customer_bot_def revenue_entry_def build_attribute_policies_def
        process_message_def check_staff_only_request_def staff_keywords_def
        staff_only_reply_en_def attribute_reply_en_def eval_text)

section \<open>Delegation to the model: results\<close>

lemma check_attribute_access_staff:
  "user_role self = STAFF \<Longrightarrow> check_attribute_access self user_message = None"
  by (simp add: check_attribute_access_def)

lemma handle_staff_analytics_customer:
  "user_role self = CUSTOMER \<Longrightarrow> handle_staff_analytics fmt self user_message lang = None"
  by (simp add: handle_staff_analytics_def)

lemma process_message_delegated:
  assumes "delegated_to_model self user_message"
  shows "process_message fmt now gw self sent user_message =
           ask_model gw self sent user_message (detect_language user_message)"
proof (cases "user_role self")
  case CUSTOMER
  then show ?thesis
    using assms
    by (simp add: delegated_to_model_def process_message_def check_staff_only_request_def
          check_attribute_access_def handle_staff_analytics_customer Let_def)
next
  case STAFF
  then show ?thesis
    using assms
    by (simp add: delegated_to_model_def process_message_def check_staff_only_request_staff
          check_attribute_access_staff handle_staff_analytics_def Let_def)
qed

lemma ask_model_first_fails:
  assumes "gw sent (first_request self user_message) = Inl e"
  shows "ask_model gw self sent user_message lang =
           (Inr apology_reply,
            self\<lparr>conversation_history := conversation_history self @ [(User, user_message)]\<rparr>,
            sent @ [first_request self user_message])"
  using assms by (simp add: ask_model_def get_ai_response_def first_request_def)

lemma ask_model_same_language:
  assumes "gw sent (first_request self user_message) = Inr reply"
    and "detect_language reply = lang"
  shows "ask_model gw self sent user_message lang =
           (Inr reply,
            self\<lparr>conversation_history :=
                   conversation_history self @ [(User, user_message), (Assistant, reply)]\<rparr>,
            sent @ [first_request self user_message])"
  using assms by (simp add: ask_model_def get_ai_response_def first_request_def)

lemma ask_model_retry:
  assumes "gw sent (first_request self user_message) = Inr reply1"
    and "detect_language reply1 \<noteq> detect_language user_message"
  shows "ask_model gw self sent user_message (detect_language user_message) =
           (case gw (sent @ [first_request self user_message])
                   (corrective_request self user_message) of
              Inl e \<Rightarrow>
                (Inr apology_reply,
                 self\<lparr>conversation_history :=
                        conversation_history self @ [(User, user_message)]\<rparr>,
                 sent @ [first_request self user_message,
                         corrective_request self user_message])
            | Inr reply2 \<Rightarrow>
                (Inr reply2,
                 self\<lparr>conversation_history :=
                        conversation_history self
                        @ [(User, user_message), (Assistant, reply2)]\<rparr>,
                 sent @ [first_request self user_message,
                         corrective_request self user_message]))"
  using assms
  by (simp add: ask_model_def get_ai_response_def first_request_def corrective_request_def
        split: sum.splits)

text \<open>
  The corrective request, written out: the system prompt, the transcript before the
  user message, and a user turn that holds the instruction in the language of the
  message, a line feed, \<open>Question: \<close> and the message.
\<close>

lemma corrective_request_text:
  "corrective_request self user_message =
     [(System, system_prompt self)] @ conversation_history self
     @ [(User,
         (if detect_language user_message = English
          then ustr ''Respond ONLY in English. Do not include any Arabic. ''
          else [0x623, 0x639, 0x62F, 0x20, 0x627, 0x644, 0x625, 0x62C, 0x627, 0x628, 0x629,
                0x20, 0x628, 0x627, 0x644, 0x644, 0x63A, 0x629, 0x20, 0x627, 0x644, 0x639,
                0x631, 0x628, 0x64A, 0x629, 0x20, 0x641, 0x642, 0x637, 0x20, 0x648, 0x644,
                0x627, 0x20, 0x62A, 0x633, 0x62A, 0x62E, 0x62F, 0x645, 0x20, 0x627, 0x644,
                0x625, 0x646, 0x62C, 0x644, 0x64A, 0x632, 0x64A, 0x629, 0x2E])
         @ [0x0A] @ ustr ''Question: '' @ user_message)]"
  by (simp add: corrective_request_def restate_instruction_def nl_def)

text \<open>
  Claim C3. When a message is delegated to the model and the first reply is detected in
  another language than the message, exactly one further request is sent. Its user turn
  is the language-correction instruction (\<open>Respond ONLY in English. Do not include any
  Arabic. \<close> for an English message, the Arabic sentence that asks for an answer in Arabic
  only for an Arabic message), followed by a line feed, \<open>Question: \<close> and the message.
  When that call returns a reply, \<open>process_message\<close> returns this second reply and the
  transcript gains the user entry and one assistant entry, which holds the second reply.
\<close>

theorem language_retry_once:
  assumes "delegated_to_model self user_message"
    and "gw sent ([(System, system_prompt self)] @ conversation_history self
                  @ [(User, user_message)]) = Inr reply1"
    and "detect_language reply1 \<noteq> detect_language user_message"
    and "gw (sent @ [[(System, system_prompt self)] @ conversation_history self
                     @ [(User, user_message)]])
            ([(System, system_prompt self)] @ conversation_history self
             @ [(User,
                 (if detect_language user_message = English
                  then ustr ''Respond ONLY in English. Do not include any Arabic. ''
                  else [0x623, 0x639, 0x62F, 0x20, 0x627, 0x644, 0x625, 0x62C, 0x627, 0x628,
                        0x629, 0x20, 0x628, 0x627, 0x644, 0x644, 0x63A, 0x629, 0x20, 0x627,
                        0x644, 0x639, 0x631, 0x628, 0x64A, 0x629, 0x20, 0x641, 0x642, 0x637,
                        0x20, 0x648, 0x644, 0x627, 0x20, 0x62A, 0x633, 0x62A, 0x62E, 0x62F,
                        0x645, 0x20, 0x627, 0x644, 0x625, 0x646, 0x62C, 0x644, 0x64A, 0x632,
                        0x64A, 0x629, 0x2E])
                 @ [0x0A] @ ustr ''Question: '' @ user_message)]) = Inr reply2"
  shows "process_message fmt now gw self sent user_message =
           (Inr reply2,
            self\<lparr>conversation_history :=
                   conversation_history self @ [(User, user_message), (Assistant, reply2)]\<rparr>,
            sent
            @ [[(System, system_prompt self)] @ conversation_history self
               @ [(User, user_message)],
               [(System, system_prompt self)] @ conversation_history self
               @ [(User,
                   (if detect_language user_message = English
                    then ustr ''Respond ONLY in English. Do not include any Arabic. ''
                    else [0x623, 0x639, 0x62F, 0x20, 0x627, 0x644, 0x625, 0x62C, 0x627, 0x628,
                          0x629, 0x20, 0x628, 0x627, 0x644, 0x644, 0x63A, 0x629, 0x20, 0x627,
                          0x644, 0x639, 0x631, 0x628, 0x64A, 0x629, 0x20, 0x641, 0x642, 0x637,
                          0x20, 0x648, 0x644, 0x627, 0x20, 0x62A, 0x633, 0x62A, 0x62E, 0x62F,
                          0x645, 0x20, 0x627, 0x644, 0x625, 0x646, 0x62C, 0x644, 0x64A, 0x632,
                          0x64A, 0x629, 0x2E])
                   @ [0x0A] @ ustr ''Question: '' @ user_message)]])"
proof -
  have first: "gw sent (first_request self user_message) = Inr reply1"
    using assms(2) by (simp add: first_request_def)
  have second: "gw (sent @ [first_request self user_message])
                  (corrective_request self user_message) = Inr reply2"
    using assms(4) by (simp only: corrective_request_text first_request_def)
  show ?thesis
    using ask_model_retry [of gw sent self user_message reply1] first assms(3) second
    by (simp add: process_message_delegated [OF assms(1)] corrective_request_text
          first_request_def)
qed

text \<open>
  Claim C9. When the gateway call fails, be it the first call or the corrective call
  after a reply in the wrong language, the apology is returned, the user message
  appended before the call stays in the transcript and no assistant entry follows it.
\<close>

theorem failed_call_leaves_user_entry:
  assumes "delegated_to_model self user_message"
    and "gw sent (first_request self user_message) = Inl e
         \<or> (\<exists>reply1. gw sent (first_request self user_message) = Inr reply1
               \<and> detect_language reply1 \<noteq> detect_language user_message
               \<and> gw (sent @ [first_request self user_message])
                     (corrective_request self user_message) = Inl e)"
  shows "fst (process_message fmt now gw self sent user_message) = Inr apology_reply
         \<and> fst (snd (process_message fmt now gw self sent user_message)) =
             self\<lparr>conversation_history :=
                    conversation_history self @ [(User, user_message)]\<rparr>"
  using assms(2)
proof
  assume "gw sent (first_request self user_message) = Inl e"
  then show ?thesis
    by (simp add: process_message_delegated [OF assms(1)] ask_model_first_fails)
next
  assume "\<exists>reply1. gw sent (first_request self user_message) = Inr reply1
               \<and> detect_language reply1 \<noteq> detect_language user_message
               \<and> gw (sent @ [first_request self user_message])
                     (corrective_request self user_message) = Inl e"
  then obtain reply1 where
    r: "gw sent (first_request self user_message) = Inr reply1"
       "detect_language reply1 \<noteq> detect_language user_message"
       "gw (sent @ [first_request self user_message])
           (corrective_request self user_message) = Inl e"
    by blast
  show ?thesis
    using ask_model_retry [of gw sent self user_message reply1] r
    by (simp add: process_message_delegated [OF assms(1)])
qed

lemma customer_price_question_delegated:
  "delegated_to_model customer_bot (ustr ''What is the price of CRM?'')"
  by (simp add: delegated_to_model_def customer_bot_def staff_keywords_def
        build_attribute_policies_def eval_text)

lemma arabic_price_question_delegated:
  "delegated_to_model customer_bot arabic_price_question"
  by (simp add: delegated_to_model_def customer_bot_def staff_keywords_def
        build_attribute_policies_def arabic_price_question_def eval_text)

text \<open>
  A customer asks for a price in English and the gateway answers in Arabic first; a
  customer asks in Arabic and the gateway answers in English first. The two requests
  sent are written out with their text.
\<close>

theorem language_retry_once_witness:
  "delegated_to_model customer_bot (ustr ''What is the price of CRM?'')
   \<and> detect_language (ustr ''What is the price of CRM?'') = English
   \<and> detect_language arabic_answer = Arabic
   \<and> process_message example_formatter example_now wrong_then_right_gateway customer_bot []
        (ustr ''What is the price of CRM?'')
      = (Inr (ustr ''The price is 100 USD.''),
         customer_bot\<lparr>conversation_history :=
           [(User, ustr ''What is the price of CRM?''),
            (Assistant, ustr ''The price is 100 USD.'')]\<rparr>,
         [[(System, ustr ''You are an AI assistant''),
           (User, ustr ''What is the price of CRM?'')],
          [(System, ustr ''You are an AI assistant''),
           (User, ustr ''Respond ONLY in English. Do not include any Arabic. '' @ [0x0A]
                  @ ustr ''Question: What is the price of CRM?'')]])
   \<and> delegated_to_model customer_bot arabic_price_question
   \<and> detect_language arabic_price_question = Arabic
   \<and> detect_language (ustr ''The price is 100 USD.'') = English
   \<and> process_message example_formatter example_now english_then_arabic_gateway customer_bot []
        arabic_price_question
      = (Inr arabic_answer,
         customer_bot\<lparr>conversation_history :=
           [(User, arabic_price_question), (Assistant, arabic_answer)]\<rparr>,
         [[(System, ustr ''You are an AI assistant''), (User, arabic_price_question)],
          [(System, ustr ''You are an AI assistant''),
           (User, [0x623, 0x639, 0x62F, 0x20, 0x627, 0x644, 0x625, 0x62C, 0x627, 0x628,
                   0x629, 0x20, 0x628, 0x627, 0x644, 0x644, 0x63A, 0x629, 0x20, 0x627,
                   0x644, 0x639, 0x631, 0x628, 0x64A, 0x629, 0x20, 0x641, 0x642, 0x637,
                   0x20, 0x648, 0x644, 0x627, 0x20, 0x62A, 0x633, 0x62A, 0x62E, 0x62F,
                   0x645, 0x20, 0x627, 0x644, 0x625, 0x646, 0x62C, 0x644, 0x64A, 0x632,
                   0x64A, 0x629, 0x2E]
                  @ [0x0A] @ ustr ''Question: '' @ arabic_price_question)]])"
proof -
  have d1: "delegated_to_model customer_bot (ustr ''What is the price of CRM?'')"
    by (rule customer_price_question_delegated)
  have d2: "delegated_to_model customer_bot arabic_price_question"
    by (rule arabic_price_question_delegated)
  have l1: "detect_language (ustr ''What is the price of CRM?'') = English"
    by (simp add: eval_text)
  have l2: "detect_language arabic_answer = Arabic"
    by (simp add: arabic_answer_def eval_text)
  have l3: "detect_language arabic_price_question = Arabic"
    by (simp add: arabic_price_question_def eval_text)
  have l4: "detect_language (ustr ''The price is 100 USD.'') = English"
    by (simp add: eval_text)
  have h: "conversation_history customer_bot = []"
       "system_prompt customer_bot = ustr ''You are an AI assistant''"
    by (simp_all add: customer_bot_def)
  have e: "ustr ''Question: '' @ ustr ''What is the price of CRM?''
             = ustr ''Question: What is the price of CRM?''"
    by (simp add: ustr_def)
  show ?thesis
    using language_retry_once
      [of customer_bot "ustr ''What is the price of CRM?''" wrong_then_right_gateway "[]"
          arabic_answer "ustr ''The price is 100 USD.''" example_formatter example_now]
      language_retry_once
      [of customer_bot arabic_price_question english_then_arabic_gateway "[]"
          "ustr ''The price is 100 USD.''" arabic_answer example_formatter example_now]
      d1 d2 l1 l2 l3 l4 h e
    by (simp add: wrong_then_right_gateway_def english_then_arabic_gateway_def)
qed

text \<open>
  A customer asks for a price and the gateway fails: the transcript, empty before, ends
  with the user entry.
\<close>

theorem failed_call_leaves_user_entry_witness:
  "delegated_to_model customer_bot (ustr ''What is the price of CRM?'')
   \<and> failing_gateway [] (first_request customer_bot (ustr ''What is the price of CRM?''))
       = Inl (ServiceError 0)
   \<and> fst (process_message example_formatter example_now failing_gateway customer_bot []
            (ustr ''What is the price of CRM?'')) = Inr apology_reply
   \<and> conversation_history
        (fst (snd (process_message example_formatter example_now failing_gateway customer_bot []
                     (ustr ''What is the price of CRM?''))))
      = [(User, ustr ''What is the price of CRM?'')]
   \<and> fst (process_message example_formatter example_now wrong_then_failing_gateway
            customer_bot [] (ustr ''What is the price of CRM?'')) = Inr apology_reply
   \<and> conversation_history
        (fst (snd (process_message example_formatter example_now wrong_then_failing_gateway
                     customer_bot [] (ustr ''What is the price of CRM?''))))
      = [(User, ustr ''What is the price of CRM?'')]"
proof -
  have d: "delegated_to_model customer_bot (ustr ''What is the price of CRM?'')"
    by (rule customer_price_question_delegated)
  have h: "conversation_history customer_bot = []"
    by (simp add: customer_bot_def)
  have l: "detect_language arabic_answer \<noteq> detect_language (ustr ''What is the price of CRM?'')"
    by (simp add: arabic_answer_def eval_text)
  show ?thesis
    using failed_call_leaves_user_entry
      [of customer_bot "ustr ''What is the price of CRM?''" failing_gateway "[]"
          "ServiceError 0" example_formatter example_now]
      failed_call_leaves_user_entry
      [of customer_bot "ustr ''What is the price of CRM?''" wrong_then_failing_gateway "[]"
          "ServiceError 0" example_formatter example_now]
      d h l
    by (simp add: failing_gateway_def wrong_then_failing_gateway_def)
qed

section \<open>Analytics: results\<close>

lemma foldl_add_sum_list:
  fixes a :: "'a::monoid_add"
  shows "foldl (+) a xs = a + sum_list xs"
  by (induction xs arbitrary: a) (simp_all add: add.assoc)

lemma py_sum_sum_list: "py_sum xs = sum_list xs"
  by (simp add: py_sum_def foldl_add_sum_list)

lemma foldl_append_lines:
  "foldl (\<lambda>report product. report @ line product) report ps = report @ concat (map line ps)"
  by (induction ps arbitrary: report) simp_all

lemma mset_py_sorted_reverse: "mset (py_sorted_reverse key xs) = mset xs"
  by (simp add: py_sorted_reverse_def)

lemma descending_py_sorted_reverse:
  "sorted_wrt (\<lambda>a b. key b \<le> key a) (py_sorted_reverse key xs)"
proof -
  have "sorted (map key (sort_key key (rev xs)))"
    by (rule sorted_sort_key)
  then have "sorted_wrt (\<lambda>a b. key a \<le> key b) (sort_key key (rev xs))"
    by (simp only: sorted_map)
  then show ?thesis
    by (simp only: py_sorted_reverse_def sorted_wrt_rev)
qed

lemma stable_py_sorted_reverse:
  "filter (\<lambda>x. key x = k) (py_sorted_reverse key xs) = filter (\<lambda>x. key x = k) xs"
proof -
  have "filter (\<lambda>x. key x = k) (py_sorted_reverse key xs)
          = rev (filter (\<lambda>x. key x = k) (sort_key key (rev xs)))"
    by (simp add: py_sorted_reverse_def rev_filter)
  also have "\<dots> = rev (filter (\<lambda>x. key x = k) (rev xs))"
    by (simp only: sort_key_stable)
  also have "\<dots> = filter (\<lambda>x. key x = k) xs"
    by (simp add: rev_filter)
  finally show ?thesis .
qed

lemma generate_sales_report_empty:
  "products self = [] \<Longrightarrow> generate_sales_report fmt now self = Inl ValueError"
  by (simp add: generate_sales_report_def)

lemma generate_sales_report_nonempty:
  assumes "products self \<noteq> []"
  shows "generate_sales_report fmt now self =
           Inr (report_head fmt now (products self)
                  (max_from units_sold (hd (products self)) (tl (products self)))
                @ concat (map (report_line fmt)
                            (py_sorted_reverse units_sold (products self))))"
  using assms
  by (cases "products self") (simp_all add: generate_sales_report_def foldl_append_lines)

text \<open>
  The totals and the order of the report, with numbers computed exactly: the two sums
  are the sums over the records, the sorted catalog holds the same records as the
  catalog in descending order of units sold, records with equal units sold keeping
  their order in the catalog, and the report of a non-empty catalog ends with one line
  per record of the sorted catalog.
\<close>

lemma sales_totals_are_sums:
  "total_revenue ps = (\<Sum>p\<leftarrow>ps. price p * of_int (units_sold p))
   \<and> total_units ps = (\<Sum>p\<leftarrow>ps. units_sold p)"
  by (simp add: total_revenue_def total_units_def py_sum_sum_list)

lemma report_line_text:
  "report_line fmt p =
     [0x0A] @ ustr ''- '' @ name p @ ustr '': '' @ format_int fmt (units_sold p)
     @ ustr '' units ($'' @ format_money fmt (price p * of_int (units_sold p)) @ ustr '')''"
  by (simp add: report_line_def nl_def)

lemma sales_report_lists_sorted_catalog:
  assumes "products self \<noteq> []"
  shows "generate_sales_report fmt now self =
           Inr (report_head fmt now (products self)
                  (max_from units_sold (hd (products self)) (tl (products self)))
                @ concat (map (\<lambda>p. [0x0A] @ ustr ''- '' @ name p @ ustr '': ''
                                   @ format_int fmt (units_sold p) @ ustr '' units ($''
                                   @ format_money fmt (price p * of_int (units_sold p))
                                   @ ustr '')'')
                            (py_sorted_reverse units_sold (products self))))"
proof -
  have line: "report_line fmt =
                (\<lambda>p. [0x0A] @ ustr ''- '' @ name p @ ustr '': ''
                      @ format_int fmt (units_sold p) @ ustr '' units ($''
                      @ format_money fmt (price p * of_int (units_sold p)) @ ustr '')'')"
    by (rule ext) (rule report_line_text)
  show ?thesis
    using generate_sales_report_nonempty [OF assms, of fmt now]
    by (simp only: line)
qed

lemma example_catalog_by_sales:
  "map units_sold example_catalog = [10, 50, 30]
   \<and> map units_sold (py_sorted_reverse units_sold example_catalog) = [50, 30, 10]"
  by (simp add: example_catalog_def example_product_def py_sorted_reverse_def)

text \<open>
  Claim C5. The claim speaks of every catalog. On the empty catalog the sorted catalog
  is empty, so the report should list no record; instead the sales report ends with the
  \<open>ValueError\<close> of \<open>max\<close> and no report exists: the claim fails at this input.
\<close>

theorem sales_report_empty_catalog_not_listed:
  "products empty_staff_bot = []
   \<and> total_units (products empty_staff_bot) = 0
   \<and> py_sorted_reverse units_sold (products empty_staff_bot) = []
   \<and> py_max units_sold (products empty_staff_bot) = Inl ValueError
   \<and> generate_sales_report example_formatter example_now empty_staff_bot = Inl ValueError"
  by (simp add: empty_staff_bot_def staff_bot_def customer_bot_def total_units_def
        py_sum_def py_sorted_reverse_def generate_sales_report_def)

text \<open>The best seller: a record of the catalog with the greatest number of units sold.\<close>

lemma max_from_ge_start: "key best \<le> key (max_from key best xs)"
proof (induction xs arbitrary: best)
  case Nil
  show ?case by simp
next
  case (Cons a xs)
  have "key best \<le> key (if key best < key a then a else best)"
    by simp
  also have "\<dots> \<le> key (max_from key (if key best < key a then a else best) xs)"
    by (rule Cons.IH)
  finally show ?case by simp
qed

lemma max_from_ge_all: "x \<in> set xs \<Longrightarrow> key x \<le> key (max_from key best xs)"
proof (induction xs arbitrary: best)
  case Nil
  then show ?case by simp
next
  case (Cons a xs)
  show ?case
  proof (cases "x = a")
    case True
    have "key a \<le> key (if key best < key a then a else best)"
      by simp
    also have "\<dots> \<le> key (max_from key (if key best < key a then a else best) xs)"
      by (rule max_from_ge_start)
    finally show ?thesis using True by simp
  next
    case False
    then have "x \<in> set xs" using Cons.prems by simp
    then show ?thesis using Cons.IH by simp
  qed
qed

lemma max_from_mem: "max_from key best xs \<in> set (best # xs)"
proof (induction xs arbitrary: best)
  case Nil
  show ?case by simp
next
  case (Cons a xs)
  show ?case
    using Cons.IH [of "if key best < key a then a else best"]
    by (auto split: if_splits)
qed

text \<open>
  Claim C10. For staff, a message that contains a revenue keyword gets the revenue
  answer whatever else it contains, a message that contains no revenue keyword but a
  pair of units keywords gets the units answer whatever else it contains, and the
  best-seller answer is given only when neither of the two matches: the families are
  tried in the order revenue, units, best seller.
\<close>

theorem staff_analytics_family_order:
  assumes "user_role self = STAFF"
  shows "((\<exists>keyword\<in>set revenue_keywords. str_contains keyword (py_lower user_message)) \<longrightarrow>
            handle_staff_analytics fmt self user_message lang =
              Some (if lang = English then fmt_en_revenue fmt (total_revenue (products self))
                    else fmt_ar_revenue fmt (total_revenue (products self))))
         \<and> (\<not> (\<exists>keyword\<in>set revenue_keywords. str_contains keyword (py_lower user_message))
             \<and> (\<exists>pair\<in>set units_keywords.
                    \<forall>word\<in>set pair. str_contains word (py_lower user_message)) \<longrightarrow>
            handle_staff_analytics fmt self user_message lang =
              Some (if lang = English then fmt_en_units fmt (total_units (products self))
                    else fmt_ar_units fmt (total_units (products self))))
         \<and> (\<not> (\<exists>keyword\<in>set revenue_keywords. str_contains keyword (py_lower user_message))
             \<and> \<not> (\<exists>pair\<in>set units_keywords.
                      \<forall>word\<in>set pair. str_contains word (py_lower user_message))
             \<and> (\<exists>keyword\<in>set best_seller_keywords.
                    str_contains keyword (py_lower user_message)) \<longrightarrow>
            handle_staff_analytics fmt self user_message lang =
              Some (if lang = English
                    then fmt_en_best fmt
                           (case products self of [] \<Rightarrow> None
                            | x # xs \<Rightarrow> Some (max_from units_sold x xs))
                    else fmt_ar_best fmt
                           (case products self of [] \<Rightarrow> None
                            | x # xs \<Rightarrow> Some (max_from units_sold x xs))))"
  using assms
  by (auto simp: handle_staff_analytics_def Let_def list_ex_iff list_all_iff)

text \<open>
  A staff question that names both the revenue and the best seller.
\<close>

theorem staff_analytics_family_order_witness:
  "user_role staff_bot = STAFF
   \<and> ustr ''revenue'' \<in> set revenue_keywords
   \<and> str_contains (ustr ''revenue'') (py_lower (ustr ''Revenue of the best seller?''))
   \<and> ustr ''best seller'' \<in> set best_seller_keywords
   \<and> str_contains (ustr ''best seller'') (py_lower (ustr ''Revenue of the best seller?''))
   \<and> handle_staff_analytics example_formatter staff_bot
        (ustr ''Revenue of the best seller?'') English
      = Some (fmt_en_revenue example_formatter 2150)"
proof -
  have k: "\<exists>keyword\<in>set revenue_keywords.
             str_contains keyword (py_lower (ustr ''Revenue of the best seller?''))"
    by (simp add: revenue_keywords_def eval_text)
  have t: "total_revenue (products staff_bot) = 2150"
    by (simp add: total_revenue_def py_sum_def staff_bot_def customer_bot_def
          example_catalog_def example_product_def)
  show ?thesis
    using staff_analytics_family_order
      [of staff_bot "ustr ''Revenue of the best seller?''" example_formatter English] k t
    by (simp add: staff_bot_def revenue_keywords_def best_seller_keywords_def eval_text)
qed

section \<open>Exceptions that leave the router: results\<close>

text \<open>
  Claim C4. On the empty catalog the analytics answer for the best seller is the text
  that says no products are available, but the sales report ends with the
  \<open>ValueError\<close> of \<open>max\<close>: the claim fails for the report.
\<close>

theorem sales_report_empty_catalog_raises:
  "products empty_staff_bot = []
   \<and> generate_sales_report example_formatter example_now empty_staff_bot = Inl ValueError
   \<and> handle_staff_analytics example_formatter empty_staff_bot (ustr ''best seller'') English
       = Some no_products_en"
  by (simp add: empty_staff_bot_def staff_bot_def customer_bot_def generate_sales_report_def
        handle_staff_analytics_def revenue_keywords_def units_keywords_def
        best_seller_keywords_def fmt_en_best_def eval_text)

text \<open>
  In general: on the empty catalog the best-seller answer of the analytics handler is
  the text that says no products are available, in the language asked for.
\<close>

lemma staff_best_seller_empty_catalog:
  assumes "user_role self = STAFF" and "products self = []"
    and "\<not> list_ex (\<lambda>keyword. str_contains keyword (py_lower user_message)) revenue_keywords"
    and "\<not> list_ex (\<lambda>pair. list_all (\<lambda>word. str_contains word (py_lower user_message)) pair)
             units_keywords"
    and "list_ex (\<lambda>term. str_contains term (py_lower user_message)) best_seller_keywords"
  shows "handle_staff_analytics fmt self user_message lang =
           Some (if lang = English then no_products_en else no_products_ar)"
  using assms
  by (simp add: handle_staff_analytics_def Let_def fmt_en_best_def fmt_ar_best_def)

lemma staff_report_delegation_free:
  assumes "user_role self = STAFF"
    and "list_ex (\<lambda>keyword. str_contains keyword (py_lower user_message))
           [ustr ''report'', ustr ''analytics'']"
  shows "process_message fmt now gw self sent user_message =
           (generate_sales_report fmt now self, self, sent)"
  using assms
  by (simp add: process_message_def check_staff_only_request_staff check_attribute_access_staff)

lemma ask_model_returns_text:
  "\<exists>text. fst (ask_model gw self sent user_message lang) = Inr text"
  by (simp add: ask_model_def get_ai_response_def Let_def split: sum.splits prod.splits)

text \<open>
  With numbers computed exactly, an exception leaves \<open>process_message\<close> in exactly one
  situation: staff asks for the report (a message with \<open>report\<close> or \<open>analytics\<close>) over
  the empty catalog. On every other input a text is returned.
\<close>

lemma process_message_raises_iff:
  "fst (process_message fmt now gw self sent user_message) = Inl e
     \<longleftrightarrow> e = ValueError \<and> user_role self = STAFF \<and> products self = []
         \<and> list_ex (\<lambda>keyword. str_contains keyword (py_lower user_message))
              [ustr ''report'', ustr ''analytics'']"
proof (cases "user_role self = STAFF
    \<and> list_ex (\<lambda>keyword. str_contains keyword (py_lower user_message))
         [ustr ''report'', ustr ''analytics'']")
  case True
  then have "process_message fmt now gw self sent user_message =
               (generate_sales_report fmt now self, self, sent)"
    by (simp add: staff_report_delegation_free)
  then show ?thesis
    using True generate_sales_report_empty [of self fmt now]
      generate_sales_report_nonempty [of self fmt now]
    by (cases "products self = []") auto
next
  case False
  obtain reply where "fst (ask_model gw self sent user_message (detect_language user_message)) = Inr reply"
    using ask_model_returns_text by blast
  then have "\<exists>text. fst (process_message fmt now gw self sent user_message) = Inr text"
    using False
    by (auto simp: process_message_def Let_def split: option.splits)
  then show ?thesis
    using False by auto
qed

text \<open>
  Claim C7. A staff request for the report over the empty catalog: the \<open>ValueError\<close> of
  the sales report leaves \<open>process_message\<close>, since the call at line 330 is outside the
  \<open>try\<close> block. The claim fails at this input.
\<close>

theorem process_message_report_raises:
  "user_role empty_staff_bot = STAFF
   \<and> products empty_staff_bot = []
   \<and> fst (process_message example_formatter example_now failing_gateway empty_staff_bot []
            (ustr ''sales report'')) = Inl ValueError"
  by (simp add: empty_staff_bot_def staff_bot_def customer_bot_def process_message_def
        check_staff_only_request_def check_attribute_access_def generate_sales_report_def
        eval_text)

end
